theory Spec2Isabelle
  imports Main "HOL-Library.Sublist"
begin

section \<open>Data model of the AgentChat tutorial notebooks\<close>

text \<open>
  The notebooks \<^verbatim>\<open>quickstart.ipynb\<close> and \<^verbatim>\<open>tutorial/agents.ipynb\<close> build chat
  messages of two classes, \<^verbatim>\<open>TextMessage(content=..., source=...)\<close> and
  \<^verbatim>\<open>StopMessage(content=..., source=...)\<close>. Both classes are imported from the
  library; the union \<^verbatim>\<open>ChatMessage\<close> they belong to is imported as well and has further
  members that the notebooks never build. Those members are kept as the type parameter
  \<open>'o\<close>, so that a message handed to an agent may be of any class of the union.
\<close>

datatype 'o ChatMessage =
    TextMessage (content: string) (source: string)
  | StopMessage (content: string) (source: string)
  | OtherMessage 'o

text \<open>The values of \<^verbatim>\<open>type[ChatMessage]\<close>: the class of a message, Python's \<^verbatim>\<open>type(m)\<close>.\<close>

datatype message_class = TextMessage_class | StopMessage_class | OtherMessage_class

fun class_of :: "'o ChatMessage \<Rightarrow> message_class" where
  "class_of (TextMessage c s) = TextMessage_class"
| "class_of (StopMessage c s) = StopMessage_class"
| "class_of (OtherMessage x) = OtherMessage_class"

text \<open>\<^verbatim>\<open>Response(chat_message=...)\<close>: the wrapper an agent returns for one turn.\<close>

record 'o Response =
  chat_message :: "'o ChatMessage"

text \<open>
  Modelled from the spec: the cancellation handle (\<^verbatim>\<open>CancellationToken\<close>) is a class of the
  runtime that the notebooks only instantiate and pass on; of its state only whether
  cancellation was requested is represented.
\<close>

datatype CancellationToken = CancellationToken (is_cancelled: bool)

datatype error = EOFError | ValueError

section \<open>The operator's console\<close>

text \<open>
  \<^verbatim>\<open>input(prompt)\<close> writes the prompt to standard output, then reads one line from
  standard input and returns it without its newline; at end of input it raises
  \<^verbatim>\<open>EOFError\<close>. The console is the list of lines still to be read and the text written
  so far.
\<close>

record console =
  stdin :: "string list"
  stdout :: string

definition input :: "string \<Rightarrow> console \<Rightarrow> (error + string) \<times> console" where
  "input prompt con =
     (let con' = con\<lparr>stdout := stdout con @ prompt\<rparr>
      in case stdin con' of
           [] \<Rightarrow> (Inl EOFError, con')
         | line # lines \<Rightarrow> (Inr line, con'\<lparr>stdin := lines\<rparr>))"

section \<open>Python's substring test on strings\<close>

text \<open>\<^verbatim>\<open>s.startswith(p)\<close> and \<^verbatim>\<open>sub in s\<close> for strings.\<close>

fun startswith :: "string \<Rightarrow> string \<Rightarrow> bool" where
  "startswith s [] = True"
| "startswith [] (p # ps) = False"
| "startswith (c # cs) (p # ps) = (c = p \<and> startswith cs ps)"

fun str_in :: "string \<Rightarrow> string \<Rightarrow> bool" where
  "str_in sub [] = (sub = [])"
| "str_in sub (c # cs) = (startswith (c # cs) sub \<or> str_in sub cs)"

section \<open>The example weather tools\<close>

text \<open>
  \<^verbatim>\<open>quickstart.ipynb\<close>:
  \<^verbatim>\<open>return f"The weather in {city} is 73 degrees and Sunny."\<close>
\<close>

definition get_weather :: "string \<Rightarrow> string" where
  "get_weather city = ''The weather in '' @ city @ '' is 73 degrees and Sunny.''"

text \<open>
  \<^verbatim>\<open>tutorial/agents.ipynb\<close>:
  \<^verbatim>\<open>return f"The weather in {city} is 72 degrees and Sunny."\<close>
\<close>

definition get_weather_tutorial :: "string \<Rightarrow> string" where
  "get_weather_tutorial city = ''The weather in '' @ city @ '' is 72 degrees and Sunny.''"

section \<open>The custom agent \<^verbatim>\<open>UserProxyAgent\<close>\<close>

text \<open>
  \<^verbatim>\<open>super().__init__(name, "A human user.")\<close>: the base class keeps the name and the
  description given to it; \<^verbatim>\<open>self.name\<close> reads the name back.
\<close>

record UserProxyAgent =
  name :: string
  description :: string

definition UserProxyAgent_init :: "string \<Rightarrow> UserProxyAgent" where
  "UserProxyAgent_init n = \<lparr>name = n, description = ''A human user.''\<rparr>"

definition produced_message_types :: "UserProxyAgent \<Rightarrow> message_class list" where
  "produced_message_types self = [TextMessage_class, StopMessage_class]"

text \<open>
  \<^verbatim>\<open>on_messages(self, messages, cancellation_token)\<close> asks the operator for a line
  (the blocking \<^verbatim>\<open>input\<close> runs in an executor and is awaited, so the method continues
  with the line read, or with the exception \<^verbatim>\<open>input\<close> raised), and answers with a
  \<^verbatim>\<open>StopMessage\<close> when the line contains \<^verbatim>\<open>TERMINATE\<close>, with the line itself otherwise.
\<close>

definition on_messages ::
  "UserProxyAgent \<Rightarrow> 'o ChatMessage list \<Rightarrow> CancellationToken \<Rightarrow> console
     \<Rightarrow> (error + 'o Response) \<times> console" where
  "on_messages self messages cancellation_token con =
     (case input ''Enter your response: '' con of
        (Inl e, con') \<Rightarrow> (Inl e, con')
      | (Inr user_input, con') \<Rightarrow>
          if str_in ''TERMINATE'' user_input
          then (Inr \<lparr>chat_message =
                  StopMessage ''User has terminated the conversation.'' (name self)\<rparr>, con')
          else (Inr \<lparr>chat_message = TextMessage user_input (name self)\<rparr>, con'))"

text \<open>
  The message literals of the tutorial cells. The cells that call \<^verbatim>\<open>tool_use_agent\<close>
  and \<^verbatim>\<open>user_proxy_agent\<close> pass
  \<^verbatim>\<open>TextMessage(content="What is the weather right now in France?", source="user")\<close>;
  the cell that calls \<^verbatim>\<open>code_executor_agent\<close> passes a \<^verbatim>\<open>TextMessage\<close> with source
  \<^verbatim>\<open>user\<close> whose content is a text of three lines (the two \<^verbatim>\<open>\n\<close> of the literal are
  newline characters).
\<close>

definition france_question :: "'o ChatMessage" where
  "france_question = TextMessage ''What is the weather right now in France?'' ''user''"

definition code_question :: "'o ChatMessage" where
  "code_question =
     TextMessage ''Here is some code \<newline> ```python print('Hello world') \<newline>``` ''
       ''user''"

text \<open>
  Whether a message carries a content string and a source string. The two classes the
  notebooks build take both as strings; of a message of another class of the union
  nothing of the kind is known.
\<close>

fun has_content_and_source :: "'o ChatMessage \<Rightarrow> bool" where
  "has_content_and_source (TextMessage c s) = True"
| "has_content_and_source (StopMessage c s) = True"
| "has_content_and_source (OtherMessage x) = False"

section \<open>The round-robin team of the quickstart\<close>

text \<open>
  Modelled from the spec: the agent interface of the library. An agent, given the
  sequence of prior messages, produces exactly one response; what a model-backed agent
  such as \<^verbatim>\<open>AssistantAgent\<close> answers is not fixed by the notebooks, so an agent is any
  function of the prior messages.
\<close>

type_synonym 'o ChatAgent = "'o ChatMessage list \<Rightarrow> 'o Response"

text \<open>
  Modelled from the spec: \<^verbatim>\<open>MaxMessageTermination(max_messages)\<close>. A termination
  condition is a predicate over the conversation so far; this one holds once the
  conversation has reached the maximum number of messages.
\<close>

definition MaxMessageTermination :: "nat \<Rightarrow> 'o ChatMessage list \<Rightarrow> bool" where
  "MaxMessageTermination max_messages conversation = (max_messages \<le> length conversation)"

text \<open>
  Modelled from the spec: the turn loop of \<^verbatim>\<open>RoundRobinGroupChat\<close>. A team is a group of
  agents, a rule for whose turn is next (here: each in order, then the first again) and a
  termination condition that decides when to stop. The loop stops as soon as the
  condition holds of the transcript; otherwise the agent whose turn it is answers the
  transcript and its message is appended. With no participant nobody can take the turn,
  which is the outcome \<open>ValueError\<close>. A loop whose condition never holds does not return:
  the value \<open>None\<close>.
\<close>

partial_function (option) round_robin ::
  "'o ChatAgent list \<Rightarrow> ('o ChatMessage list \<Rightarrow> bool) \<Rightarrow> nat \<Rightarrow> 'o ChatMessage list
     \<Rightarrow> (error + 'o ChatMessage list) option" where
  "round_robin participants termination_condition turn transcript =
     (if termination_condition transcript then Some (Inr transcript)
      else if participants = [] then Some (Inl ValueError)
      else round_robin participants termination_condition
             (Suc turn mod length participants)
             (transcript @ [chat_message ((participants ! turn) transcript)]))"

declare round_robin.simps [code]

text \<open>
  Modelled from the spec: \<^verbatim>\<open>RoundRobinGroupChat(participants, termination_condition).run(task)\<close>.
  The transcript starts with the task text attributed to \<^verbatim>\<open>user\<close>; the result is the
  transcript of all exchanged messages.
\<close>

definition RoundRobinGroupChat_run ::
  "'o ChatAgent list \<Rightarrow> ('o ChatMessage list \<Rightarrow> bool) \<Rightarrow> string
     \<Rightarrow> (error + 'o ChatMessage list) option" where
  "RoundRobinGroupChat_run participants termination_condition task =
     round_robin participants termination_condition 0 [TextMessage task ''user'']"

section \<open>Case folding, to speak about letter case\<close>

text \<open>
  The code never folds case. This function, which maps an ASCII lower-case letter to its
  upper-case letter and leaves every other character alone, only serves to say in a
  statement that a text contains a word "in some letter case".
\<close>

definition ascii_upper :: "char \<Rightarrow> char" where
  "ascii_upper c =
     (case map_of (zip ''abcdefghijklmnopqrstuvwxyz'' ''ABCDEFGHIJKLMNOPQRSTUVWXYZ'') c of
        None \<Rightarrow> c
      | Some C \<Rightarrow> C)"

section \<open>Helper lemmas\<close>

lemma startswith_iff_prefix: "startswith s p \<longleftrightarrow> prefix p s"
  by (induction s p rule: startswith.induct) auto

lemma str_in_iff_sublist: "str_in sub s \<longleftrightarrow> sublist sub s"
  by (induction s) (simp_all add: startswith_iff_prefix sublist_Cons_right)

lemma input_line:
  "stdin con = u # rest \<Longrightarrow>
   input prompt con = (Inr u, con\<lparr>stdout := stdout con @ prompt, stdin := rest\<rparr>)"
  by (simp add: input_def)

lemma input_eof:
  "stdin con = [] \<Longrightarrow> input prompt con = (Inl EOFError, con\<lparr>stdout := stdout con @ prompt\<rparr>)"
  by (simp add: input_def)

lemma on_messages_line:
  "stdin con = u # rest \<Longrightarrow>
   on_messages self messages cancellation_token con =
     (Inr \<lparr>chat_message =
        (if str_in ''TERMINATE'' u
         then StopMessage ''User has terminated the conversation.'' (name self)
         else TextMessage u (name self))\<rparr>,
      con\<lparr>stdout := stdout con @ ''Enter your response: '', stdin := rest\<rparr>)"
  by (simp add: on_messages_def input_line)

lemma on_messages_eof:
  "stdin con = [] \<Longrightarrow>
   on_messages self messages cancellation_token con =
     (Inl EOFError, con\<lparr>stdout := stdout con @ ''Enter your response: ''\<rparr>)"
  by (simp add: on_messages_def input_eof)

section \<open>The custom agent: echo and termination\<close>

text \<open>
  C1. When the line the operator enters does not contain the substring \<^verbatim>\<open>TERMINATE\<close>, then
  whatever the prior messages and the cancellation token are, \<^verbatim>\<open>on_messages\<close> returns a
  response whose chat message is a \<^verbatim>\<open>TextMessage\<close> with the line as its content,
  unchanged, and the agent's name as its source; the name is the one the agent was
  constructed with.
\<close>

theorem on_messages_echo:
  assumes "stdin con = u # rest" and "\<not> sublist ''TERMINATE'' u"
  shows "fst (on_messages self messages cancellation_token con)
           = Inr \<lparr>chat_message = TextMessage u (name self)\<rparr>
         \<and> name (UserProxyAgent_init n) = n"
  using assms by (simp add: on_messages_line str_in_iff_sublist UserProxyAgent_init_def)

theorem on_messages_echo_witness:
  "stdin \<lparr>stdin = [''Hello there''], stdout = ''''\<rparr> = ''Hello there'' # []
   \<and> \<not> sublist ''TERMINATE'' ''Hello there''
   \<and> fst (on_messages (UserProxyAgent_init ''user_proxy_agent'')
            [france_question :: unit ChatMessage] (CancellationToken False)
            \<lparr>stdin = [''Hello there''], stdout = ''''\<rparr>)
       = Inr \<lparr>chat_message = TextMessage ''Hello there'' ''user_proxy_agent''\<rparr>"
proof -
  have line: "stdin \<lparr>stdin = [''Hello there''], stdout = ''''\<rparr> = ''Hello there'' # []"
    by simp
  have no_marker: "\<not> sublist ''TERMINATE'' ''Hello there''"
    by (simp add: str_in_iff_sublist [symmetric])
  from on_messages_echo [OF line no_marker, of "UserProxyAgent_init ''user_proxy_agent''"
      "[france_question]" "CancellationToken False"]
  show ?thesis using line no_marker by (simp add: UserProxyAgent_init_def)
qed

text \<open>
  C2. When the line the operator enters contains the substring \<^verbatim>\<open>TERMINATE\<close>, then
  whatever the prior messages and the cancellation token are, \<^verbatim>\<open>on_messages\<close> returns a
  response whose chat message is a \<^verbatim>\<open>StopMessage\<close> with the content
  \<^verbatim>\<open>User has terminated the conversation.\<close> and the agent's name as its source; the name
  is the one the agent was constructed with.
\<close>

theorem on_messages_terminate:
  assumes "stdin con = u # rest" and "sublist ''TERMINATE'' u"
  shows "fst (on_messages self messages cancellation_token con)
           = Inr \<lparr>chat_message =
               StopMessage ''User has terminated the conversation.'' (name self)\<rparr>
         \<and> name (UserProxyAgent_init n) = n"
  using assms by (simp add: on_messages_line str_in_iff_sublist UserProxyAgent_init_def)

theorem on_messages_terminate_witness:
  "stdin \<lparr>stdin = [''Please TERMINATE now'', ''more''], stdout = ''''\<rparr>
     = ''Please TERMINATE now'' # [''more'']
   \<and> sublist ''TERMINATE'' ''Please TERMINATE now''
   \<and> fst (on_messages (UserProxyAgent_init ''user_proxy_agent'')
            [france_question :: unit ChatMessage] (CancellationToken False)
            \<lparr>stdin = [''Please TERMINATE now'', ''more''], stdout = ''''\<rparr>)
       = Inr \<lparr>chat_message =
           StopMessage ''User has terminated the conversation.'' ''user_proxy_agent''\<rparr>"
proof -
  have line: "stdin \<lparr>stdin = [''Please TERMINATE now'', ''more''], stdout = ''''\<rparr>
                = ''Please TERMINATE now'' # [''more'']"
    by simp
  have marker: "sublist ''TERMINATE'' ''Please TERMINATE now''"
    by (simp add: str_in_iff_sublist [symmetric])
  from on_messages_terminate [OF line marker, of "UserProxyAgent_init ''user_proxy_agent''"
      "[france_question]" "CancellationToken False"]
  show ?thesis using line marker by (simp add: UserProxyAgent_init_def)
qed

section \<open>The weather tools\<close>

text \<open>
  C3. For every city name, the weather function of the quickstart returns a text that
  contains the city name and ends with a phrase that does not depend on the city
  (\<^verbatim>\<open> is 73 degrees and Sunny.\<close>), and so does the weather function of the agents
  tutorial, with its own phrase (\<^verbatim>\<open> is 72 degrees and Sunny.\<close>).
\<close>

theorem get_weather_contains_city:
  "sublist city (get_weather city)
   \<and> suffix '' is 73 degrees and Sunny.'' (get_weather city)
   \<and> sublist city (get_weather_tutorial city)
   \<and> suffix '' is 72 degrees and Sunny.'' (get_weather_tutorial city)"
proof -
  have "sublist city (''The weather in '' @ city @ phrase)" for phrase :: string
    by (rule sublist_appendI)
  moreover have "suffix phrase (''The weather in '' @ city @ phrase)" for phrase :: string
    by (rule suffixI [of _ "''The weather in '' @ city"]) simp
  ultimately show ?thesis
    unfolding get_weather_def get_weather_tutorial_def by blast
qed

section \<open>The quickstart run\<close>

text \<open>
  C4. A round-robin team of one agent with the termination condition "at most 2
  messages", run on a task, returns, and its transcript has exactly two messages: the task
  text with source \<^verbatim>\<open>user\<close>, then the one reply of the agent to that message. The loop
  stops on the two-message transcript, so the agent is not asked a second time.
\<close>

theorem quickstart_run_two_messages:
  "RoundRobinGroupChat_run [weather_agent] (MaxMessageTermination 2) task
     = Some (Inr [TextMessage task ''user'',
                  chat_message (weather_agent [TextMessage task ''user''])])
   \<and> map_option (map_sum id length)
         (RoundRobinGroupChat_run [weather_agent] (MaxMessageTermination 2) task)
       = Some (Inr 2)
   \<and> MaxMessageTermination 2
         [TextMessage task ''user'', chat_message (weather_agent [TextMessage task ''user''])]"
proof -
  let ?t0 = "[TextMessage task ''user'']"
  let ?t1 = "?t0 @ [chat_message (weather_agent ?t0)]"
  have stop: "round_robin [weather_agent] (MaxMessageTermination 2) 0 ?t1 = Some (Inr ?t1)"
    by (subst round_robin.simps) (simp add: MaxMessageTermination_def)
  have "round_robin [weather_agent] (MaxMessageTermination 2) 0 ?t0
          = round_robin [weather_agent] (MaxMessageTermination 2) 0 ?t1"
    by (subst round_robin.simps) (simp add: MaxMessageTermination_def)
  with stop have
    "RoundRobinGroupChat_run [weather_agent] (MaxMessageTermination 2) task = Some (Inr ?t1)"
    by (simp add: RoundRobinGroupChat_run_def)
  then show ?thesis by (simp add: MaxMessageTermination_def)
qed

section \<open>Shape of the responses\<close>

text \<open>
  C5. Whatever the prior messages and the cancellation token, a call of
  \<^verbatim>\<open>on_messages\<close> that is given a line by the operator returns a response, and that
  response wraps exactly one chat message: there is one and only one message \<open>m\<close> such
  that the result is the response holding \<open>m\<close>.
\<close>

theorem on_messages_one_response:
  assumes "stdin con = u # rest"
  shows "\<exists>!m. fst (on_messages self messages cancellation_token con)
                 = Inr \<lparr>chat_message = m\<rparr>"
  using assms by (simp add: on_messages_line)

theorem on_messages_one_response_witness:
  "stdin \<lparr>stdin = [''Hello there''], stdout = ''''\<rparr> = ''Hello there'' # []
   \<and> (\<exists>!m. fst (on_messages (UserProxyAgent_init ''user_proxy_agent'')
                   ([] :: unit ChatMessage list) (CancellationToken True)
                   \<lparr>stdin = [''Hello there''], stdout = ''''\<rparr>)
                = Inr \<lparr>chat_message = m\<rparr>)"
proof -
  have line: "stdin \<lparr>stdin = [''Hello there''], stdout = ''''\<rparr> = ''Hello there'' # []"
    by simp
  from on_messages_one_response [OF line] show ?thesis using line by blast
qed

text \<open>
  C6. Every chat message the notebooks' code builds carries a content string and a source
  string, being a \<^verbatim>\<open>TextMessage\<close> or a \<^verbatim>\<open>StopMessage\<close> and never a message of another
  class. This holds of the message returned by \<^verbatim>\<open>on_messages\<close>, whose content is the
  fixed termination text when the operator's line contains \<^verbatim>\<open>TERMINATE\<close> and the line
  itself otherwise, and whose source is the agent's name; of the two message literals of
  the tutorial cells, both with source \<^verbatim>\<open>user\<close>; and of the message the quickstart run
  builds, the task text with source \<^verbatim>\<open>user\<close>. The second message of the quickstart
  transcript is not built by the run: it is the message of the agent's response, taken as
  it is, so all messages of the transcript carry both strings exactly when that one does.
\<close>

theorem messages_have_content_and_source:
  assumes "stdin con = u # rest"
  shows "(\<exists>m. fst (on_messages self messages cancellation_token con)
                 = Inr \<lparr>chat_message = m\<rparr>
              \<and> has_content_and_source m
              \<and> content m = (if sublist ''TERMINATE'' u
                             then ''User has terminated the conversation.'' else u)
              \<and> source m = name self)
         \<and> list_all has_content_and_source
              [france_question :: 'o ChatMessage, code_question]
         \<and> content (france_question :: 'o ChatMessage)
             = ''What is the weather right now in France?''
         \<and> source (france_question :: 'o ChatMessage) = ''user''
         \<and> content (code_question :: 'o ChatMessage)
             = ''Here is some code \<newline> ```python print('Hello world') \<newline>``` ''
         \<and> source (code_question :: 'o ChatMessage) = ''user''
         \<and> (\<exists>reply.
               RoundRobinGroupChat_run [weather_agent :: 'o ChatAgent]
                   (MaxMessageTermination 2) task
                 = Some (Inr [TextMessage task ''user'', reply])
               \<and> reply = chat_message (weather_agent [TextMessage task ''user''])
               \<and> has_content_and_source (TextMessage task ''user'' :: 'o ChatMessage)
               \<and> list_all has_content_and_source [TextMessage task ''user'', reply]
                   = has_content_and_source reply)"
proof -
  have returned:
    "\<exists>m. fst (on_messages self messages cancellation_token con)
            = Inr \<lparr>chat_message = m\<rparr>
         \<and> has_content_and_source m
         \<and> content m = (if sublist ''TERMINATE'' u
                        then ''User has terminated the conversation.'' else u)
         \<and> source m = name self"
    using assms by (simp add: on_messages_line str_in_iff_sublist)
  have literals:
    "list_all has_content_and_source [france_question :: 'o ChatMessage, code_question]"
    "content (france_question :: 'o ChatMessage) = ''What is the weather right now in France?''"
    "source (france_question :: 'o ChatMessage) = ''user''"
    "content (code_question :: 'o ChatMessage)
       = ''Here is some code \<newline> ```python print('Hello world') \<newline>``` ''"
    "source (code_question :: 'o ChatMessage) = ''user''"
    by (simp_all add: france_question_def code_question_def)
  let ?t0 = "[TextMessage task ''user''] :: 'o ChatMessage list"
  have "round_robin [weather_agent] (MaxMessageTermination 2) 0 ?t0
          = Some (Inr (?t0 @ [chat_message (weather_agent ?t0)]))"
    by (subst round_robin.simps, simp add: MaxMessageTermination_def)+
  then have transcript:
    "\<exists>reply.
       RoundRobinGroupChat_run [weather_agent :: 'o ChatAgent]
           (MaxMessageTermination 2) task
         = Some (Inr [TextMessage task ''user'', reply])
       \<and> reply = chat_message (weather_agent [TextMessage task ''user''])
       \<and> has_content_and_source (TextMessage task ''user'' :: 'o ChatMessage)
       \<and> list_all has_content_and_source [TextMessage task ''user'', reply]
           = has_content_and_source reply"
    by (simp add: RoundRobinGroupChat_run_def)
  from returned literals transcript show ?thesis
    by (intro conjI)
qed

theorem messages_have_content_and_source_witness:
  "stdin \<lparr>stdin = [''TERMINATE''], stdout = ''''\<rparr> = ''TERMINATE'' # []
   \<and> (\<exists>m. fst (on_messages (UserProxyAgent_init ''user_proxy_agent'')
                  [code_question :: unit ChatMessage] (CancellationToken False)
                  \<lparr>stdin = [''TERMINATE''], stdout = ''''\<rparr>)
              = Inr \<lparr>chat_message = m\<rparr>
           \<and> has_content_and_source m
           \<and> content m = (if sublist ''TERMINATE'' ''TERMINATE''
                          then ''User has terminated the conversation.'' else ''TERMINATE'')
           \<and> source m = name (UserProxyAgent_init ''user_proxy_agent''))
   \<and> RoundRobinGroupChat_run
         [\<lambda>prior. \<lparr>chat_message =
              TextMessage ''The weather in New York is 73 degrees and sunny.''
                ''weather_agent''\<rparr>]
         (MaxMessageTermination 2) ''What is the weather in New York?''
       = Some (Inr [TextMessage ''What is the weather in New York?'' ''user'',
                    TextMessage ''The weather in New York is 73 degrees and sunny.''
                      ''weather_agent'' :: unit ChatMessage])
   \<and> list_all has_content_and_source
         [TextMessage ''What is the weather in New York?'' ''user'',
          TextMessage ''The weather in New York is 73 degrees and sunny.''
            ''weather_agent'' :: unit ChatMessage]"
proof -
  let ?agent = "\<lambda>prior :: unit ChatMessage list.
      \<lparr>chat_message =
         TextMessage ''The weather in New York is 73 degrees and sunny.''
           ''weather_agent''\<rparr>"
  have line: "stdin \<lparr>stdin = [''TERMINATE''], stdout = ''''\<rparr> = ''TERMINATE'' # []"
    by simp
  note all = messages_have_content_and_source [OF line,
      where self = "UserProxyAgent_init ''user_proxy_agent''"
        and messages = "[code_question :: unit ChatMessage]"
        and cancellation_token = "CancellationToken False"
        and weather_agent = ?agent
        and task = "''What is the weather in New York?''"]
  from all obtain reply where
    run: "RoundRobinGroupChat_run [?agent] (MaxMessageTermination 2)
            ''What is the weather in New York?''
          = Some (Inr [TextMessage ''What is the weather in New York?'' ''user'', reply])"
    and reply: "reply = chat_message (?agent [TextMessage ''What is the weather in New York?'' ''user''])"
    and both: "list_all has_content_and_source
                 [TextMessage ''What is the weather in New York?'' ''user'', reply]
               = has_content_and_source reply"
    by blast
  from reply have reply':
    "reply = TextMessage ''The weather in New York is 73 degrees and sunny.'' ''weather_agent''"
    by simp
  from both have carried:
    "list_all has_content_and_source
       [TextMessage ''What is the weather in New York?'' ''user'',
        TextMessage ''The weather in New York is 73 degrees and sunny.''
          ''weather_agent'' :: unit ChatMessage]"
    unfolding reply' by simp
  from line all [THEN conjunct1] run [unfolded reply'] carried show ?thesis
    by (intro conjI)
qed

section \<open>What the response does not depend on\<close>

text \<open>
  C7. \<^verbatim>\<open>on_messages\<close> does not act on its cancellation token: two calls with the same
  agent, the same prior messages and the same console (hence the same operator input)
  but any two cancellation tokens give the same result, response and console alike.
\<close>

theorem on_messages_ignores_cancellation_token:
  "on_messages self messages token1 con = on_messages self messages token2 con"
  by (simp add: on_messages_def)

text \<open>
  C8. \<^verbatim>\<open>on_messages\<close> ignores its \<^verbatim>\<open>messages\<close> argument: two calls with the same
  agent, the same cancellation token and the same console (hence the same operator
  input) but any two sequences of prior messages give the same result, and so the same
  result as the call with the empty sequence.
\<close>

theorem on_messages_ignores_messages:
  "on_messages self messages1 cancellation_token con
     = on_messages self messages2 cancellation_token con
   \<and> on_messages self messages1 cancellation_token con
     = on_messages self [] cancellation_token con"
  by (simp add: on_messages_def)

section \<open>Declared and produced message classes\<close>

text \<open>
  C9. \<^verbatim>\<open>produced_message_types\<close> returns exactly the list of the two classes
  \<^verbatim>\<open>TextMessage\<close> and \<^verbatim>\<open>StopMessage\<close>, and for every operator line and every sequence
  of prior messages the chat message that \<^verbatim>\<open>on_messages\<close> returns is a
  \<^verbatim>\<open>TextMessage\<close> or a \<^verbatim>\<open>StopMessage\<close>, so its class is one of the declared ones.
\<close>

theorem on_messages_class_declared:
  assumes "stdin con = u # rest"
  shows "produced_message_types self = [TextMessage_class, StopMessage_class]
         \<and> (\<exists>r. fst (on_messages self messages cancellation_token con) = Inr r
                \<and> ((\<exists>c s. chat_message r = TextMessage c s)
                     \<or> (\<exists>c s. chat_message r = StopMessage c s))
                \<and> class_of (chat_message r) \<in> set (produced_message_types self))"
  using assms by (simp add: on_messages_line produced_message_types_def)

theorem on_messages_class_declared_witness:
  "stdin \<lparr>stdin = [''Hello there''], stdout = ''''\<rparr> = ''Hello there'' # []
   \<and> produced_message_types (UserProxyAgent_init ''user_proxy_agent'')
       = [TextMessage_class, StopMessage_class]
   \<and> (\<exists>r. fst (on_messages (UserProxyAgent_init ''user_proxy_agent'')
                  [OtherMessage ()] (CancellationToken False)
                  \<lparr>stdin = [''Hello there''], stdout = ''''\<rparr>) = Inr r
          \<and> class_of (chat_message r)
              \<in> set (produced_message_types (UserProxyAgent_init ''user_proxy_agent'')))"
proof -
  have line: "stdin \<lparr>stdin = [''Hello there''], stdout = ''''\<rparr> = ''Hello there'' # []"
    by simp
  from on_messages_class_declared [OF line,
      of "UserProxyAgent_init ''user_proxy_agent''" "[OtherMessage ()]"
         "CancellationToken False"]
  show ?thesis using line by blast
qed

section \<open>Letter case of the termination marker\<close>

text \<open>
  C10. The termination check is a case-sensitive substring test. A line that contains
  \<^verbatim>\<open>TERMINATE\<close> in some other letter case only (it contains the word once its letters
  are folded to upper case, but not as it stands), such as \<^verbatim>\<open>terminate\<close>, is echoed as
  a \<^verbatim>\<open>TextMessage\<close>; a line in which the upper-case \<^verbatim>\<open>TERMINATE\<close> occurs at any
  position, with any text before and after it, yields the \<^verbatim>\<open>StopMessage\<close>.
\<close>

theorem terminate_check_case_sensitive:
  assumes "stdin con = u # rest"
  shows "(sublist ''TERMINATE'' (map ascii_upper u) \<and> \<not> sublist ''TERMINATE'' u
            \<longrightarrow> fst (on_messages self messages cancellation_token con)
                  = Inr \<lparr>chat_message = TextMessage u (name self)\<rparr>)
         \<and> ((\<exists>before after. u = before @ ''TERMINATE'' @ after)
            \<longrightarrow> fst (on_messages self messages cancellation_token con)
                  = Inr \<lparr>chat_message =
                      StopMessage ''User has terminated the conversation.'' (name self)\<rparr>)"
proof -
  have "(\<exists>before after. u = before @ ''TERMINATE'' @ after) \<longleftrightarrow> str_in ''TERMINATE'' u"
    by (simp add: str_in_iff_sublist sublist_def)
  then show ?thesis
    using assms by (simp add: on_messages_line str_in_iff_sublist)
qed

theorem terminate_check_case_sensitive_witness:
  "stdin \<lparr>stdin = [''terminate''], stdout = ''''\<rparr> = ''terminate'' # []
   \<and> sublist ''TERMINATE'' (map ascii_upper ''terminate'')
   \<and> \<not> sublist ''TERMINATE'' ''terminate''
   \<and> fst (on_messages (UserProxyAgent_init ''user_proxy_agent'')
            [france_question :: unit ChatMessage] (CancellationToken False)
            \<lparr>stdin = [''terminate''], stdout = ''''\<rparr>)
       = Inr \<lparr>chat_message = TextMessage ''terminate'' ''user_proxy_agent''\<rparr>
   \<and> stdin \<lparr>stdin = [''EXTERMINATED''], stdout = ''''\<rparr> = ''EXTERMINATED'' # []
   \<and> ''EXTERMINATED'' = ''EX'' @ ''TERMINATE'' @ ''D''
   \<and> fst (on_messages (UserProxyAgent_init ''user_proxy_agent'')
            [france_question :: unit ChatMessage] (CancellationToken False)
            \<lparr>stdin = [''EXTERMINATED''], stdout = ''''\<rparr>)
       = Inr \<lparr>chat_message =
           StopMessage ''User has terminated the conversation.'' ''user_proxy_agent''\<rparr>"
proof -
  let ?self = "UserProxyAgent_init ''user_proxy_agent''"
  let ?messages = "[france_question :: unit ChatMessage]"
  have lower: "stdin \<lparr>stdin = [''terminate''], stdout = ''''\<rparr> = ''terminate'' # []"
    by simp
  have folded: "sublist ''TERMINATE'' (map ascii_upper ''terminate'')"
    by (simp add: ascii_upper_def)
  have absent: "\<not> sublist ''TERMINATE'' ''terminate''"
    by (simp add: str_in_iff_sublist [symmetric])
  have upper: "stdin \<lparr>stdin = [''EXTERMINATED''], stdout = ''''\<rparr> = ''EXTERMINATED'' # []"
    by simp
  have inside: "''EXTERMINATED'' = ''EX'' @ ''TERMINATE'' @ ''D''"
    by simp
  then have ex: "\<exists>before after. ''EXTERMINATED'' = before @ ''TERMINATE'' @ after"
    by (intro exI)
  have nm: "name ?self = ''user_proxy_agent''"
    by (simp add: UserProxyAgent_init_def)
  have echo: "fst (on_messages ?self ?messages (CancellationToken False)
                    \<lparr>stdin = [''terminate''], stdout = ''''\<rparr>)
                = Inr \<lparr>chat_message = TextMessage ''terminate'' ''user_proxy_agent''\<rparr>"
    using terminate_check_case_sensitive [OF lower, of ?self ?messages
        "CancellationToken False", THEN conjunct1, THEN mp, OF conjI [OF folded absent]]
    unfolding nm .
  have stop: "fst (on_messages ?self ?messages (CancellationToken False)
                    \<lparr>stdin = [''EXTERMINATED''], stdout = ''''\<rparr>)
                = Inr \<lparr>chat_message =
                    StopMessage ''User has terminated the conversation.''
                      ''user_proxy_agent''\<rparr>"
    using terminate_check_case_sensitive [OF upper, of ?self ?messages
        "CancellationToken False", THEN conjunct2, THEN mp, OF ex]
    unfolding nm .
  from lower folded absent echo upper inside stop show ?thesis
    by (intro conjI)
qed

end
